theory Spec2Isabelle
  imports Complex_Main
begin

section \<open>Values shared by the services\<close>

text \<open>
  A string is a list of code points below 256; a code point above behaves in every
  function below like a non-ASCII one. Timestamps (\<open>datetime.utcnow()\<close>) are natural
  numbers. One invocation of a service method reads the clock several times; the model
  gives the invocation a single reading, so all timestamps written by one invocation
  coincide.
\<close>

type_synonym datetime = nat

fun index_of :: "'a \<Rightarrow> 'a list \<Rightarrow> nat option" where
  "index_of x [] = None"
| "index_of x (y # ys) = (if x = y then Some 0 else map_option Suc (index_of x ys))"

definition hex_digit :: "char \<Rightarrow> nat option" where
  "hex_digit c =
     (case index_of c ''0123456789abcdef'' of
        Some n \<Rightarrow> Some n
      | None \<Rightarrow> map_option (\<lambda>n. n + 10) (index_of c ''ABCDEF''))"

text \<open>
  \<open>bytes.fromhex\<close>: two hexadecimal digits per byte, ASCII white space skipped before
  a byte; \<open>None\<close> where it raises \<open>ValueError\<close>.
\<close>

definition is_ascii_space :: "char \<Rightarrow> bool" where
  "is_ascii_space c =
     (c \<in> set [CHR '' '', CHR 0x09, CHR 0x0A, CHR 0x0B, CHR 0x0C, CHR 0x0D])"

fun fromhex :: "string \<Rightarrow> nat list option" where
  "fromhex [] = Some []"
| "fromhex [c] = (if is_ascii_space c then Some [] else None)"
| "fromhex (c # d # cs) =
     (if is_ascii_space c then fromhex (d # cs)
      else case hex_digit c of
             None \<Rightarrow> None
           | Some hi \<Rightarrow>
               (case hex_digit d of
                  None \<Rightarrow> None
                | Some lo \<Rightarrow> map_option (\<lambda>bs. (16 * hi + lo) # bs) (fromhex cs)))"

text \<open>
  The \<open>_id\<close> of a stored document is a 12-byte ObjectId, held as the number that the
  bytes denote. The constructor \<open>ObjectId(s)\<close> raises \<open>InvalidId\<close> unless \<open>s\<close> has 24
  characters that \<open>bytes.fromhex\<close> accepts; it keeps the bytes it gets, which are 12
  for 24 hexadecimal digits and fewer when the string holds blanks.
\<close>

type_synonym object_id = nat

datatype oid_result = InvalidId | Oid object_id | Short "nat list"

definition ObjectId :: "string \<Rightarrow> oid_result" where
  "ObjectId s =
     (if length s = 24
      then (case fromhex s of
              None \<Rightarrow> InvalidId
            | Some bs \<Rightarrow> if length bs = 12 then Oid (foldl (\<lambda>n b. 256 * n + b) 0 bs)
                         else Short bs)
      else InvalidId)"

text \<open>
  Python values that occur in the free-form dictionaries (the telephony result, the
  webhook payload), and dictionaries as association lists with distinct keys.
\<close>

datatype pyval = PStr string | PInt int | PBool bool

type_synonym pydict = "(string \<times> pyval) list"

definition dict_get :: "pydict \<Rightarrow> string \<Rightarrow> pyval \<Rightarrow> pyval" where
  "dict_get d k dflt = (case map_of d k of Some v \<Rightarrow> v | None \<Rightarrow> dflt)"

fun truthy :: "pyval \<Rightarrow> bool" where
  "truthy (PStr s) = (s \<noteq> [])"
| "truthy (PInt n) = (n \<noteq> 0)"
| "truthy (PBool b) = b"

text \<open>
  What the program takes from the Python runtime, the MongoDB driver and the server,
  none of which is code of this repository:
  \<^item> \<open>int_str s\<close> is \<open>int(s)\<close> for a string \<open>s\<close>, \<open>None\<close> where it raises;
  \<^item> \<open>db_stores d\<close> says whether driver and server accept a write that stores the
    dictionary \<open>d\<close> (its key names decide that);
  \<^item> \<open>short_id bs\<close> is the \<open>_id\<close> that a query for an ObjectId of fewer than 12
    bytes \<open>bs\<close> is matched against, \<open>None\<close> where encoding the query or the server
    raises.
  Every theorem holds for every such runtime.
\<close>

record runtime =
  int_str :: "string \<Rightarrow> int option"
  db_stores :: "pydict \<Rightarrow> bool"
  short_id :: "nat list \<Rightarrow> object_id option"

text \<open>
  \<open>int(x)\<close>: the identity on integers, 0/1 on booleans, and the runtime's conversion
  on a string.
\<close>

fun py_int :: "runtime \<Rightarrow> pyval \<Rightarrow> int option" where
  "py_int rt (PInt n) = Some n"
| "py_int rt (PBool b) = Some (if b then 1 else 0)"
| "py_int rt (PStr s) = int_str rt s"

text \<open>BSON holds an integer in at most eight bytes; the driver raises on any other.\<close>

definition bson_int :: "int \<Rightarrow> bool" where
  "bson_int n = (- (2 ^ 63) \<le> n \<and> n < 2 ^ 63)"

text \<open>
  The \<open>_id\<close> that a query built from \<open>ObjectId(s)\<close> is matched against; \<open>None\<close> where
  the constructor or the query raises.
\<close>

definition wire_id :: "runtime \<Rightarrow> oid_result \<Rightarrow> object_id option" where
  "wire_id rt r = (case r of InvalidId \<Rightarrow> None | Oid i \<Rightarrow> Some i | Short bs \<Rightarrow> short_id rt bs)"

text \<open>\<open>str(n)\<close> for an integer, used by the script template.\<close>

fun show_nat :: "nat \<Rightarrow> string" where
  "show_nat n =
     (if n < 10 then [''0123456789'' ! n]
      else show_nat (n div 10) @ [''0123456789'' ! (n mod 10)])"

declare show_nat.simps [simp del]

definition show_int :: "int \<Rightarrow> string" where
  "show_int i = (if i < 0 then CHR ''-'' # show_nat (nat (- i)) else show_nat (nat i))"

datatype http_error = HTTPException nat string

datatype py_exception = TypeError

section \<open>Documents (app/models)\<close>

text \<open>
  The models with the fields the call and order services read or write. Field names
  carry a prefix (\<open>u_\<close>, \<open>o_\<close>, \<open>oc_\<close>, \<open>c_\<close>) because the models share names. The
  nested \<open>customer\<close> and \<open>order_details\<close> models are flattened. The order total is a
  float that the services only print into the script; \<open>o_total\<close> holds that printed
  form. \<open>CallCreate\<close> adds nothing to \<open>CallBase\<close>.
\<close>

record UserInDB =
  u_id :: object_id
  u_role :: string

record OrderItem =
  item_name :: string
  item_quantity :: int

record OrderBase =
  o_order_id :: string
  o_customer_name :: string
  o_customer_phone :: string
  o_items :: "OrderItem list"
  o_total :: string
  o_currency :: string
  o_confirmation_status :: string
  o_call_attempts :: int
  o_max_call_attempts :: int
  o_priority :: string
  o_notes :: "string option"


record OrderInDB = OrderBase +
  o_id :: object_id
  o_user_id :: object_id
  o_created_at :: datetime
  o_updated_at :: datetime
  o_last_call_date :: "datetime option"
  o_confirmed_at :: "datetime option"


record CallBase =
  c_call_id :: string
  c_order_id :: object_id
  c_user_id :: object_id
  c_status :: string
  c_call_type :: string
  c_language :: string
  c_voice_id :: "string option"
  c_duration :: "int option"
  c_transcript :: "string option"
  c_audio_url :: "string option"
  c_outcome :: "string option"
  c_customer_response :: "string option"
  c_retry_count :: int
  c_scheduled_at :: "datetime option"
  c_metadata :: "pydict option"

record CallInDB = CallBase +
  c_id :: object_id
  c_created_at :: datetime
  c_updated_at :: datetime
  c_started_at :: "datetime option"
  c_ended_at :: "datetime option"

text \<open>
  \<open>PyObjectId.validate(cls, v)\<close> (app/models/user.py) takes the value only. The
  settings module and the user models need pydantic 2, which calls a validator obtained
  through \<open>__get_validators__\<close> with the value and the validation info: the call raises
  \<open>TypeError\<close> whatever the value. Validating a model therefore raises at its first
  \<open>PyObjectId\<close> field.
\<close>

definition PyObjectId_validate :: "object_id \<Rightarrow> py_exception + object_id" where
  "PyObjectId_validate v = Inl TypeError"

definition OrderInDB_validate :: "OrderInDB \<Rightarrow> py_exception + OrderInDB" where
  "OrderInDB_validate doc =
     (case PyObjectId_validate (o_id doc) of
        Inl err \<Rightarrow> Inl err
      | Inr i \<Rightarrow>
          (case PyObjectId_validate (o_user_id doc) of
             Inl err \<Rightarrow> Inl err
           | Inr u \<Rightarrow> Inr (doc\<lparr>o_id := i, o_user_id := u\<rparr>)))"

definition CallBase_validate :: "CallBase \<Rightarrow> py_exception + CallBase" where
  "CallBase_validate doc =
     (case PyObjectId_validate (c_order_id doc) of
        Inl err \<Rightarrow> Inl err
      | Inr i \<Rightarrow>
          (case PyObjectId_validate (c_user_id doc) of
             Inl err \<Rightarrow> Inl err
           | Inr u \<Rightarrow> Inr (doc\<lparr>c_order_id := i, c_user_id := u\<rparr>)))"

definition CallInDB_validate :: "CallInDB \<Rightarrow> py_exception + CallInDB" where
  "CallInDB_validate doc =
     (case PyObjectId_validate (c_order_id doc) of
        Inl err \<Rightarrow> Inl err
      | Inr i \<Rightarrow>
          (case PyObjectId_validate (c_user_id doc) of
             Inl err \<Rightarrow> Inl err
           | Inr u \<Rightarrow>
               (case PyObjectId_validate (c_id doc) of
                  Inl err \<Rightarrow> Inl err
                | Inr k \<Rightarrow> Inr (doc\<lparr>c_order_id := i, c_user_id := u, c_id := k\<rparr>))))"

text \<open>
  \<open>CallUpdate\<close> declares exactly these fields (\<open>ai_confidence\<close>, a float that no
  service sets, is left out). A field that is \<open>None\<close> is unset, which is what
  \<open>dict(exclude_unset=True)\<close> drops.
\<close>

record CallUpdate =
  cu_status :: "string option"
  cu_duration :: "int option"
  cu_transcript :: "string option"
  cu_audio_url :: "string option"
  cu_outcome :: "string option"
  cu_customer_response :: "string option"
  cu_retry_count :: "int option"

text \<open>
  The keyword arguments that the call service passes to the \<open>CallUpdate\<close> constructor.
  The model class has no \<open>Config\<close>, so pydantic ignores a keyword that is not a
  declared field: \<open>started_at\<close> and \<open>metadata\<close> are dropped.
\<close>

datatype call_kwarg =
  Kw_status string
| Kw_outcome string
| Kw_transcript string
| Kw_started_at datetime
| Kw_metadata pydict

definition CallUpdate_empty :: CallUpdate where
  "CallUpdate_empty =
     \<lparr>cu_status = None, cu_duration = None, cu_transcript = None, cu_audio_url = None,
      cu_outcome = None, cu_customer_response = None, cu_retry_count = None\<rparr>"

fun set_kwarg :: "call_kwarg \<Rightarrow> CallUpdate \<Rightarrow> CallUpdate" where
  "set_kwarg (Kw_status s) u = u\<lparr>cu_status := Some s\<rparr>"
| "set_kwarg (Kw_outcome s) u = u\<lparr>cu_outcome := Some s\<rparr>"
| "set_kwarg (Kw_transcript s) u = u\<lparr>cu_transcript := Some s\<rparr>"
| "set_kwarg (Kw_started_at t) u = u"
| "set_kwarg (Kw_metadata m) u = u"

definition CallUpdate_init :: "call_kwarg list \<Rightarrow> CallUpdate" where
  "CallUpdate_init kwargs = foldl (\<lambda>u k. set_kwarg k u) CallUpdate_empty kwargs"

section \<open>The database and the collaborators\<close>

text \<open>
  The state: the two MongoDB collections in insertion order, and the log of the
  invocations of the telephony service (phone number, call id).
\<close>

record state =
  orders :: "OrderInDB list"
  call_logs :: "CallInDB list"
  voice_calls :: "(string \<times> string) list"

abbreviation find_one :: "('a \<Rightarrow> bool) \<Rightarrow> 'a list \<Rightarrow> 'a option" where
  "find_one \<equiv> List.find"

fun update_one :: "('a \<Rightarrow> bool) \<Rightarrow> ('a \<Rightarrow> 'a) \<Rightarrow> 'a list \<Rightarrow> 'a list" where
  "update_one P f [] = []"
| "update_one P f (x # xs) = (if P x then f x # xs else x # update_one P f xs)"


definition modified_count :: "('a \<Rightarrow> bool) \<Rightarrow> ('a \<Rightarrow> 'a) \<Rightarrow> 'a list \<Rightarrow> nat" where
  "modified_count P f xs =
     (case find_one P xs of None \<Rightarrow> 0 | Some x \<Rightarrow> if f x = x then 0 else 1)"

text \<open>
  What one invocation of the call service takes from outside the program: the clock,
  the fresh uuid and \<open>_id\<close> of the record it creates, whether the ElevenLabs key and
  the Twilio client are configured, the body of the text-to-speech response (\<open>None\<close>
  when the request fails), and the configured sender number.
\<close>

record env =
  now :: datetime
  new_uuid :: string
  new_object_id :: object_id
  elevenlabs_api_key_set :: bool
  tts_response :: "string option"
  twilio_client_set :: bool
  whatsapp_number :: "string option"

section \<open>app/services/elevenlabs\_service.py\<close>

fun join :: "string \<Rightarrow> string list \<Rightarrow> string" where
  "join sep [] = []"
| "join sep [x] = x"
| "join sep (x # y # ys) = x @ sep @ join sep (y # ys)"

definition items_text_of :: "OrderItem list \<Rightarrow> string" where
  "items_text_of items =
     (if items = [] then []
      else ''including '' @
           join '', '' (map (\<lambda>item. show_int (item_quantity item) @ '' '' @ item_name item)
                          (take 3 items)) @
           (if length items > 3 then '' and '' @ show_nat (length items - 3) @ '' more items''
            else []))"

definition generate_confirmation_script ::
  "string \<Rightarrow> string \<Rightarrow> string \<Rightarrow> string \<Rightarrow> OrderItem list \<Rightarrow> string" where
  "generate_confirmation_script customer_name order_id order_total currency items =
     ''Hello '' @ customer_name @
     '', this is a call from VoiceConfirm regarding your recent order #'' @ order_id @
     ''. \<newline>\<newline>I'm calling to confirm your order totaling '' @ order_total @ '' '' @
     currency @ '' '' @ items_text_of items @
     ''. \<newline>\<newline>Could you please confirm that you placed this order and that all the details are correct? \<newline>\<newline>If you confirm this order, please say 'yes' or 'confirm'. If there are any issues or you need to cancel, please say 'no' or 'cancel'.\<newline>\<newline>Thank you for your time.''"

text \<open>
  \<open>text_to_speech\<close> returns \<open>None\<close> without an API key and when the request fails,
  the response body otherwise. \<open>create_conversation_audio\<close> passes the localised script
  to it; the text sent does not enter the model, the response is \<open>tts_response\<close>.
\<close>

definition text_to_speech :: "env \<Rightarrow> string option" where
  "text_to_speech e = (if \<not> elevenlabs_api_key_set e then None else tts_response e)"

definition create_conversation_audio :: "env \<Rightarrow> string option" where
  "create_conversation_audio e = text_to_speech e"

section \<open>app/services/twilio\_service.py\<close>

definition make_voice_call :: "env \<Rightarrow> string \<Rightarrow> string \<Rightarrow> pydict" where
  "make_voice_call e phone_number call_id =
     (if \<not> twilio_client_set e
      then [(''success'', PBool False), (''error'', PStr ''Twilio not configured'')]
      else [(''success'', PBool True),
            (''call_sid'', PStr (''CA'' @ take 32 call_id)),
            (''status'', PStr ''initiated''),
            (''to'', PStr phone_number),
            (''from'', PStr (case whatsapp_number e of
                               None \<Rightarrow> ''+1234567890''
                             | Some n \<Rightarrow> if n = [] then ''+1234567890'' else n))])"

section \<open>app/services/call\_service.py\<close>

text \<open>
  What the driver can encode of a call document and of a \<open>CallUpdate\<close>: the integers
  must fit in eight bytes, and a metadata dictionary must be one that is stored.
\<close>

definition call_insertable :: "runtime \<Rightarrow> CallInDB \<Rightarrow> bool" where
  "call_insertable rt doc =
     (bson_int (c_retry_count doc) \<and>
      (case c_duration doc of None \<Rightarrow> True | Some d \<Rightarrow> bson_int d) \<and>
      (case c_metadata doc of None \<Rightarrow> True | Some m \<Rightarrow> db_stores rt m))"

definition call_update_storable :: "CallUpdate \<Rightarrow> bool" where
  "call_update_storable u =
     ((case cu_duration u of None \<Rightarrow> True | Some d \<Rightarrow> bson_int d) \<and>
      (case cu_retry_count u of None \<Rightarrow> True | Some n \<Rightarrow> bson_int n))"

text \<open>
  \<open>insert_one\<close> raises for a document whose \<open>_id\<close> is taken (DuplicateKeyError) and
  for one that cannot be encoded.
\<close>

definition insert_one :: "runtime \<Rightarrow> CallInDB \<Rightarrow> CallInDB list \<Rightarrow> CallInDB list option" where
  "insert_one rt doc xs =
     (if c_id doc \<notin> set (map c_id xs) \<and> call_insertable rt doc then Some (xs @ [doc])
      else None)"

text \<open>
  \<open>create_call\<close> inserts the document and then builds \<open>CallInDB(**call_dict)\<close>; any
  exception of the two gives the 500.
\<close>

definition create_call ::
  "runtime \<Rightarrow> env \<Rightarrow> CallBase \<Rightarrow> state \<Rightarrow> (http_error + CallInDB) \<times> state" where
  "create_call rt e call_data st =
     (let doc = \<lparr>c_call_id = new_uuid e, c_order_id = c_order_id call_data,
                 c_user_id = c_user_id call_data, c_status = c_status call_data,
                 c_call_type = c_call_type call_data, c_language = c_language call_data,
                 c_voice_id = c_voice_id call_data, c_duration = c_duration call_data,
                 c_transcript = c_transcript call_data, c_audio_url = c_audio_url call_data,
                 c_outcome = c_outcome call_data,
                 c_customer_response = c_customer_response call_data,
                 c_retry_count = c_retry_count call_data,
                 c_scheduled_at = c_scheduled_at call_data, c_metadata = c_metadata call_data,
                 c_id = new_object_id e, c_created_at = now e, c_updated_at = now e,
                 c_started_at = None, c_ended_at = None\<rparr>
      in case insert_one rt doc (call_logs st) of
           None \<Rightarrow> (Inl (HTTPException 500 ''Failed to create call record''), st)
         | Some logs \<Rightarrow>
             (case CallInDB_validate doc of
                Inl err \<Rightarrow>
                  (Inl (HTTPException 500 ''Failed to create call record''),
                   st\<lparr>call_logs := logs\<rparr>)
              | Inr call_record \<Rightarrow> (Inr call_record, st\<lparr>call_logs := logs\<rparr>)))"

definition set_opt :: "'a option \<Rightarrow> 'a option \<Rightarrow> 'a option" where
  "set_opt new old = (case new of Some v \<Rightarrow> Some v | None \<Rightarrow> old)"

text \<open>The \<open>$set\<close> that \<open>update_call\<close> builds from a \<open>CallUpdate\<close>.\<close>

definition call_update_data :: "CallUpdate \<Rightarrow> datetime \<Rightarrow> CallInDB \<Rightarrow> CallInDB" where
  "call_update_data u t c =
     c\<lparr>c_status := (case cu_status u of Some s \<Rightarrow> s | None \<Rightarrow> c_status c),
       c_duration := set_opt (cu_duration u) (c_duration c),
       c_transcript := set_opt (cu_transcript u) (c_transcript c),
       c_audio_url := set_opt (cu_audio_url u) (c_audio_url c),
       c_outcome := set_opt (cu_outcome u) (c_outcome c),
       c_customer_response := set_opt (cu_customer_response u) (c_customer_response c),
       c_retry_count := (case cu_retry_count u of Some n \<Rightarrow> n | None \<Rightarrow> c_retry_count c),
       c_updated_at := t,
       c_ended_at := (if cu_status u = Some ''completed'' then Some t else c_ended_at c)\<rparr>"

text \<open>
  \<open>update_call\<close> swallows every exception and returns \<open>None\<close>: when the update cannot
  be encoded nothing is written, and after a write \<open>CallInDB(**updated_call)\<close> raises.
\<close>

definition update_call ::
  "datetime \<Rightarrow> object_id \<Rightarrow> CallUpdate \<Rightarrow> state \<Rightarrow> CallInDB option \<times> state" where
  "update_call t call_id call_update st =
     (if call_update_storable call_update
      then
        let query = (\<lambda>c. c_id c = call_id);
            update_data = call_update_data call_update t;
            n = modified_count query update_data (call_logs st);
            st' = st\<lparr>call_logs := update_one query update_data (call_logs st)\<rparr>
        in if n = 0 then (None, st')
           else (case find_one query (call_logs st') of
                   None \<Rightarrow> (None, st')
                 | Some updated_call \<Rightarrow>
                     (case CallInDB_validate updated_call of
                        Inl err \<Rightarrow> (None, st')
                      | Inr c \<Rightarrow> (Some c, st')))
      else (None, st))"

definition default_voice :: string where
  "default_voice = ''21m00Tcm4TlvDq8ikWAM''"

text \<open>
  \<open>initiate_order_confirmation_call\<close>. Every exception other than an
  \<open>HTTPException\<close> raised inside the \<open>try\<close> block becomes the 500 "Failed to initiate
  call": the \<open>InvalidId\<close> of the constructor, a failing query, and the \<open>TypeError\<close> of
  \<open>OrderInDB(**order)\<close> and of \<open>CallCreate(...)\<close>.
\<close>

definition initiate_order_confirmation_call ::
  "runtime \<Rightarrow> env \<Rightarrow> string \<Rightarrow> UserInDB \<Rightarrow> string \<Rightarrow> string option \<Rightarrow> state
   \<Rightarrow> (http_error + CallInDB option) \<times> state" where
  "initiate_order_confirmation_call rt e order_id user language voice_id st =
     (case wire_id rt (ObjectId order_id) of
        None \<Rightarrow> (Inl (HTTPException 500 ''Failed to initiate call''), st)
      | Some oid \<Rightarrow>
        (case find_one (\<lambda>r. o_id r = oid \<and> o_user_id r = u_id user) (orders st) of
           None \<Rightarrow> (Inl (HTTPException 404 ''Order not found''), st)
         | Some order \<Rightarrow>
           (case OrderInDB_validate order of
              Inl err \<Rightarrow> (Inl (HTTPException 500 ''Failed to initiate call''), st)
            | Inr order_obj \<Rightarrow>
             if o_confirmation_status order_obj = ''confirmed''
             then (Inl (HTTPException 400 ''Order already confirmed''), st)
             else if o_call_attempts order_obj \<ge> o_max_call_attempts order_obj
             then (Inl (HTTPException 400 ''Maximum call attempts reached''), st)
             else
               let voice = (case voice_id of
                              None \<Rightarrow> default_voice
                            | Some v \<Rightarrow> if v = [] then default_voice else v)
               in case CallBase_validate
                         \<lparr>c_call_id = [], c_order_id = oid, c_user_id = u_id user,
                          c_status = ''initiated'', c_call_type = ''confirmation'',
                          c_language = language, c_voice_id = Some voice, c_duration = None,
                          c_transcript = None, c_audio_url = None, c_outcome = None,
                          c_customer_response = None, c_retry_count = 0,
                          c_scheduled_at = Some (now e), c_metadata = None\<rparr> of
                    Inl err \<Rightarrow> (Inl (HTTPException 500 ''Failed to initiate call''), st)
                  | Inr call_data \<Rightarrow>
                 (case create_call rt e call_data st of
                    (Inl err, st1) \<Rightarrow> (Inl err, st1)
                  | (Inr call_record, st1) \<Rightarrow>
                      let script = generate_confirmation_script (o_customer_name order_obj)
                                     (o_order_id order_obj) (o_total order_obj)
                                     (o_currency order_obj) (o_items order_obj);
                          audio_data = create_conversation_audio e
                      in if audio_data = None \<or> audio_data = Some []
                         then
                           let st2 = snd (update_call (now e) (c_id call_record)
                                            (CallUpdate_init [Kw_status ''failed'',
                                               Kw_outcome ''audio_generation_failed'']) st1)
                           in (Inl (HTTPException 500 ''Failed to generate audio''), st2)
                         else
                           let call_result = make_voice_call e (o_customer_phone order_obj)
                                               (c_call_id call_record);
                               st2 = st1\<lparr>voice_calls := voice_calls st1 @
                                       [(o_customer_phone order_obj, c_call_id call_record)]\<rparr>;
                               success = (case map_of call_result ''success'' of
                                            None \<Rightarrow> False | Some v \<Rightarrow> truthy v);
                               call_update = CallUpdate_init
                                 [Kw_status (if success then ''in_progress'' else ''failed''),
                                  Kw_started_at (now e), Kw_transcript script,
                                  Kw_metadata call_result];
                               (updated_call, st3) =
                                 update_call (now e) (c_id call_record) call_update st2;
                               st4 = st3\<lparr>orders := update_one (\<lambda>r. o_id r = oid)
                                       (\<lambda>r. r\<lparr>o_call_attempts := o_call_attempts r + 1,
                                               o_last_call_date := Some (now e)\<rparr>)
                                       (orders st3)\<rparr>
                           in (Inr updated_call, st4)))))"

text \<open>The fixed table of \<open>process_call_webhook\<close> and its lookup with default.\<close>

definition status_mapping :: "(string \<times> string) list" where
  "status_mapping =
     [(''completed'', ''completed''), (''busy'', ''failed''), (''no-answer'', ''failed''),
      (''failed'', ''failed''), (''canceled'', ''cancelled'')]"

fun status_mapping_get :: "pyval \<Rightarrow> string" where
  "status_mapping_get (PStr s) =
     (case map_of status_mapping s of Some m \<Rightarrow> m | None \<Rightarrow> ''failed'')"
| "status_mapping_get v = ''failed''"

definition webhook_outcome :: "string \<Rightarrow> int \<Rightarrow> string" where
  "webhook_outcome mapped_status d =
     (if mapped_status = ''completed'' \<and> d > 10 then ''completed''
      else if mapped_status = ''failed'' then ''failed''
      else ''no_answer'')"

definition webhook_update_data ::
  "string \<Rightarrow> int \<Rightarrow> string \<Rightarrow> datetime \<Rightarrow> pydict \<Rightarrow> CallInDB \<Rightarrow> CallInDB" where
  "webhook_update_data mapped_status d outcome t webhook_data c =
     c\<lparr>c_status := mapped_status, c_duration := Some d, c_outcome := Some outcome,
       c_updated_at := t, c_metadata := Some webhook_data,
       c_ended_at := (if mapped_status = ''completed'' then Some t else c_ended_at c)\<rparr>"

text \<open>
  \<open>process_call_webhook\<close> returns \<open>False\<close> on every exception: \<open>int(duration)\<close>
  raising, and the update of the call record raising because the duration does not fit
  in eight bytes or the payload is not stored. Both happen before anything is written.
\<close>

definition process_call_webhook ::
  "runtime \<Rightarrow> datetime \<Rightarrow> string \<Rightarrow> pydict \<Rightarrow> state \<Rightarrow> bool \<times> state" where
  "process_call_webhook rt t call_id webhook_data st =
     (case find_one (\<lambda>c. c_call_id c = call_id) (call_logs st) of
        None \<Rightarrow> (False, st)
      | Some call \<Rightarrow>
          let status = dict_get webhook_data ''CallStatus'' (PStr ''unknown'');
              duration = dict_get webhook_data ''CallDuration'' (PInt 0);
              mapped_status = status_mapping_get status
          in case py_int rt duration of
               None \<Rightarrow> (False, st)
             | Some d \<Rightarrow>
                 let outcome = webhook_outcome mapped_status d
                 in if bson_int d \<and> db_stores rt webhook_data
                    then
                      let st1 = st\<lparr>call_logs := update_one (\<lambda>c. c_call_id c = call_id)
                                  (webhook_update_data mapped_status d outcome t webhook_data)
                                  (call_logs st)\<rparr>;
                          st2 = (if outcome = ''completed''
                                 then st1\<lparr>orders := update_one (\<lambda>r. o_id r = c_order_id call)
                                        (\<lambda>r. r\<lparr>o_confirmation_status := ''confirmed'',
                                                o_confirmed_at := Some t\<rparr>)
                                        (orders st1)\<rparr>
                                 else st1)
                      in (True, st2)
                    else (False, st))"

text \<open>
  \<open>get_call_stats\<close>: the aggregation pipeline over the calls that the user may see;
  \<open>$sum\<close> skips a null duration. The quotients are computed in double precision and
  rounded by \<open>round(x, 2)\<close>; the model takes that arithmetic as a parameter, over any
  type \<open>'f\<close> of floats. Where the durations are so large that a partial sum leaves the
  eight-byte range the server's sum is no longer an integer sum, and the result is the
  parameter \<open>big_stats\<close>. The state is returned as it was: the method only reads.
\<close>

record 'f float_ops =
  true_div :: "int \<Rightarrow> int \<Rightarrow> 'f"
  times_100 :: "'f \<Rightarrow> 'f"
  round_2 :: "'f \<Rightarrow> 'f"
  float_zero :: 'f

record 'f CallStats =
  total_calls :: int
  successful_calls :: int
  failed_calls :: int
  average_duration :: 'f
  success_rate :: 'f
  total_duration :: int
  calls_by_outcome :: "(string \<times> int) list"
  calls_by_language :: "(string \<times> int) list"

fun dict_incr :: "string \<Rightarrow> (string \<times> int) list \<Rightarrow> (string \<times> int) list" where
  "dict_incr k [] = [(k, 1)]"
| "dict_incr k ((k', n) # d) = (if k = k' then (k', n + 1) # d else (k', n) # dict_incr k d)"

definition count_values :: "string option list \<Rightarrow> (string \<times> int) list" where
  "count_values vs =
     foldl (\<lambda>d v. case v of None \<Rightarrow> d | Some s \<Rightarrow> if s = [] then d else dict_incr s d) [] vs"

definition empty_stats :: "'f float_ops \<Rightarrow> 'f CallStats" where
  "empty_stats fl =
     \<lparr>total_calls = 0, successful_calls = 0, failed_calls = 0,
      average_duration = float_zero fl, success_rate = float_zero fl, total_duration = 0,
      calls_by_outcome = [], calls_by_language = []\<rparr>"

definition get_call_stats ::
  "'f float_ops \<Rightarrow> (CallInDB list \<Rightarrow> 'f CallStats) \<Rightarrow> UserInDB \<Rightarrow> state
   \<Rightarrow> 'f CallStats \<times> state" where
  "get_call_stats fl big_stats user st =
     (let matched = filter (\<lambda>c. u_role user = ''admin'' \<or> c_user_id c = u_id user)
                      (call_logs st);
          durations = map (\<lambda>c. case c_duration c of None \<Rightarrow> 0 | Some d \<Rightarrow> d) matched
      in if matched = [] then (empty_stats fl, st)
         else if bson_int (sum_list (map abs durations))
         then
           let total = int (length matched);
               successful = int (length (filter (\<lambda>c. c_status c = ''completed'') matched));
               failed = int (length (filter (\<lambda>c. c_status c = ''failed'') matched));
               duration_sum = sum_list durations
           in (\<lparr>total_calls = total, successful_calls = successful, failed_calls = failed,
                average_duration =
                  round_2 fl (if total > 0 then true_div fl duration_sum total
                              else float_zero fl),
                success_rate =
                  round_2 fl (if total > 0 then times_100 fl (true_div fl successful total)
                              else float_zero fl),
                total_duration = duration_sum,
                calls_by_outcome = count_values (map c_outcome matched),
                calls_by_language = count_values (map (\<lambda>c. Some (c_language c)) matched)\<rparr>,
               st)
         else (big_stats matched, st))"

section \<open>app/services/order\_service.py\<close>









section \<open>app/api/calls/routes.py\<close>

text \<open>
  The webhook endpoint. The form is a dictionary of text fields; the endpoint answers
  with a JSON object or with an HTTP error.
\<close>

definition twilio_webhook ::
  "runtime \<Rightarrow> datetime \<Rightarrow> (string \<times> string) list \<Rightarrow> state
   \<Rightarrow> (http_error + (string \<times> string) list) \<times> state" where
  "twilio_webhook rt t form_data st =
     (let webhook_data = map (\<lambda>(k, v). (k, PStr v)) form_data
      in case map_of form_data ''CallSid'' of
           None \<Rightarrow> (Inl (HTTPException 400 ''Missing CallSid in webhook data''), st)
         | Some call_sid \<Rightarrow>
             if call_sid = []
             then (Inl (HTTPException 400 ''Missing CallSid in webhook data''), st)
             else
               let (success, st') = process_call_webhook rt t call_sid webhook_data st
               in if success then (Inr [(''status'', ''success'')], st')
                  else (Inl (HTTPException 400 ''Failed to process webhook''), st'))"

section \<open>The public operations that write the orders\<close>




section \<open>The spec's wording of the statistics\<close>

text \<open>
  The success rate and the average duration as the specification words them: completed
  over total, and the mean over the calls whose duration is not null.
\<close>

definition spec_success_rate :: "CallInDB list \<Rightarrow> rat" where
  "spec_success_rate calls =
     of_nat (length (filter (\<lambda>c. c_status c = ''completed'') calls)) / of_nat (length calls)"

definition spec_average_duration :: "CallInDB list \<Rightarrow> rat" where
  "spec_average_duration calls =
     (let ds = List.map_filter c_duration calls
      in of_int (sum_list ds) / of_nat (length ds))"

section \<open>Concrete inputs\<close>

text \<open>
  A runtime for the examples. Its \<open>int_str\<close> converts the non-empty strings of at most
  4300 ASCII digits, on which it agrees with \<open>int()\<close>, and refuses every other string,
  the empty one included, which \<open>int()\<close> refuses too. Its store accepts the dictionaries
  whose keys hold no NUL character, and it lets every query for a short ObjectId raise.
\<close>

fun digits_value :: "nat \<Rightarrow> string \<Rightarrow> nat option" where
  "digits_value acc [] = Some acc"
| "digits_value acc (c # cs) =
     (case index_of c ''0123456789'' of
        None \<Rightarrow> None
      | Some d \<Rightarrow> digits_value (10 * acc + d) cs)"

definition decimal_str :: "string \<Rightarrow> int option" where
  "decimal_str s =
     (if s \<noteq> [] \<and> length s \<le> 4300 then map_option int (digits_value 0 s) else None)"

definition example_runtime :: runtime where
  "example_runtime =
     \<lparr>int_str = decimal_str,
      db_stores = list_all (\<lambda>kv. CHR 0x00 \<notin> set (fst kv)),
      short_id = (\<lambda>bs. None)\<rparr>"

text \<open>
  Exact arithmetic on rationals with rounding to two decimals, half to even: it gives
  what double precision gives wherever, as in the examples, every value involved is a
  small integer or a half.
\<close>

definition round_half_even :: "rat \<Rightarrow> int" where
  "round_half_even x =
     (let f = \<lfloor>x\<rfloor>; r = x - of_int f
      in if r < 1 / 2 then f else if 1 / 2 < r then f + 1 else if even f then f else f + 1)"

definition exact_floats :: "rat float_ops" where
  "exact_floats =
     \<lparr>true_div = (\<lambda>a b. of_int a / of_int b),
      times_100 = (\<lambda>x. x * 100),
      round_2 = (\<lambda>x. of_int (round_half_even (x * 100)) / 100),
      float_zero = 0\<rparr>"

definition example_user :: UserInDB where
  "example_user = \<lparr>u_id = 7, u_role = ''user''\<rparr>"

definition example_order :: OrderInDB where
  "example_order =
     \<lparr>o_order_id = ''A-100'', o_customer_name = ''Ada'', o_customer_phone = ''+15550100'',
      o_items = [\<lparr>item_name = ''Lamp'', item_quantity = 2\<rparr>],
      o_total = ''49.99'', o_currency = ''USD'', o_confirmation_status = ''pending'',
      o_call_attempts = 0, o_max_call_attempts = 3, o_priority = ''normal'',
      o_notes = None, o_id = 1, o_user_id = 7, o_created_at = 0, o_updated_at = 0,
      o_last_call_date = None, o_confirmed_at = None\<rparr>"

definition example_order_id :: string where
  "example_order_id = ''000000000000000000000001''"

definition example_env :: env where
  "example_env =
     \<lparr>now = 100, new_uuid = ''uuid-1'', new_object_id = 50, elevenlabs_api_key_set = True,
      tts_response = Some ''mp3'', twilio_client_set = True, whatsapp_number = None\<rparr>"

definition example_call :: CallInDB where
  "example_call =
     \<lparr>c_call_id = ''CA-1'', c_order_id = 1, c_user_id = 7, c_status = ''in_progress'',
      c_call_type = ''confirmation'', c_language = ''en'', c_voice_id = Some default_voice,
      c_duration = None, c_transcript = None, c_audio_url = None, c_outcome = None,
      c_customer_response = None, c_retry_count = 0, c_scheduled_at = Some 90,
      c_metadata = None, c_id = 40, c_created_at = 90, c_updated_at = 90,
      c_started_at = None, c_ended_at = None\<rparr>"

definition example_state :: state where
  "example_state = \<lparr>orders = [example_order], call_logs = [], voice_calls = []\<rparr>"

definition example_state_with_call :: state where
  "example_state_with_call =
     \<lparr>orders = [example_order], call_logs = [example_call], voice_calls = []\<rparr>"

definition example_stats_state :: state where
  "example_stats_state =
     \<lparr>orders = [],
      call_logs = [example_call\<lparr>c_status := ''completed'', c_duration := Some 10\<rparr>,
                   example_call\<lparr>c_call_id := ''CA-2'', c_id := 41, c_status := ''failed''\<rparr>],
      voice_calls = []\<rparr>"


text \<open>
  In the examples the durations are small, so that what the statistics are beyond the
  eight-byte range plays no part; the examples pass the empty statistics there.
\<close>

definition example_big_stats :: "CallInDB list \<Rightarrow> rat CallStats" where
  "example_big_stats calls = empty_stats exact_floats"

section \<open>Facts about the collections\<close>

text \<open>
  Updating the first match keeps it the first match when the update does not touch the
  key; an update that fixes its own results is idempotent; updating and deleting add no
  document but the updated one.
\<close>

lemma find_one_update_one:
  "find_one P xs = Some x \<Longrightarrow> (\<And>y. P y \<Longrightarrow> P (f y)) \<Longrightarrow> find_one P (update_one P f xs) = Some (f x)"
  by (induction xs) (auto split: if_splits)


lemma update_one_idem:
  "(\<And>y. P y \<Longrightarrow> P (f y)) \<Longrightarrow> (\<And>y. f (f y) = f y) \<Longrightarrow>
   update_one P f (update_one P f xs) = update_one P f xs"
  by (induction xs) auto



text \<open>
  Validating a stored order or call record raises, since both models have a
  \<open>PyObjectId\<close> field. So \<open>initiate_order_confirmation_call\<close> never gets past
  \<open>OrderInDB(**order)\<close>: it answers 500 for an id that cannot be queried, 404 when the
  query finds no order of the user, and 500 for every order found; it writes nothing.
\<close>

lemma OrderInDB_validate_raises: "OrderInDB_validate doc = Inl TypeError"
  by (simp add: OrderInDB_validate_def PyObjectId_validate_def)

lemma CallInDB_validate_raises: "CallInDB_validate doc = Inl TypeError"
  by (simp add: CallInDB_validate_def PyObjectId_validate_def)

lemma initiate_never_proceeds:
  "initiate_order_confirmation_call rt e order_id user language voice_id st =
     (case wire_id rt (ObjectId order_id) of
        None \<Rightarrow> (Inl (HTTPException 500 ''Failed to initiate call''), st)
      | Some oid \<Rightarrow>
          (case find_one (\<lambda>r. o_id r = oid \<and> o_user_id r = u_id user) (orders st) of
             None \<Rightarrow> (Inl (HTTPException 404 ''Order not found''), st)
           | Some order \<Rightarrow> (Inl (HTTPException 500 ''Failed to initiate call''), st)))"
  by (simp add: initiate_order_confirmation_call_def OrderInDB_validate_raises
      split: option.splits)


lemma snd_update_call:
  "snd (update_call t i u st) =
     (if call_update_storable u
      then st\<lparr>call_logs := update_one (\<lambda>c. c_id c = i) (call_update_data u t) (call_logs st)\<rparr>
      else st)"
  by (simp add: update_call_def Let_def CallInDB_validate_raises split: option.splits)

text \<open>
  The order id of the examples is the ObjectId 1; \<open>abc\<close> is no ObjectId. The
  conversion of the example runtime on the durations used below.
\<close>

lemma ObjectId_example: "ObjectId example_order_id = Oid 1"
  by (simp add: ObjectId_def example_order_id_def hex_digit_def is_ascii_space_def)

lemma ObjectId_abc: "ObjectId ''abc'' = InvalidId"
  by (simp add: ObjectId_def)

lemma decimal_str_15: "decimal_str ''15'' = Some 15"
  by (simp add: decimal_str_def)

lemma decimal_str_5: "decimal_str ''5'' = Some 5"
  by (simp add: decimal_str_def)

lemma decimal_str_empty: "decimal_str [] = None"
  by (simp add: decimal_str_def)

lemma decimal_str_big: "decimal_str ''9223372036854775808'' = Some 9223372036854775808"
  by (simp add: decimal_str_def)


section \<open>Initiating a confirmation call\<close>

text \<open>
  Claim C1 says that \<open>initiate_order_confirmation_call\<close> checks the order in sequence:
  not found for an order that does not exist or is not the requester's, else already
  confirmed, else attempts exhausted, each without a call record. The code has the three
  checks in that sequence, but between the lookup and the checks it builds
  \<open>OrderInDB(**order)\<close>, which raises. At a stored order of the requester that is
  confirmed and has used all its attempts it answers 500 "Failed to initiate call", not
  400 "Order already confirmed"; at one that has only used all its attempts it answers
  the same 500, not 400 "Maximum call attempts reached". The order id \<open>abc\<close>, which
  denotes no order, is answered with that 500 too, not with 404. Only a well-formed id
  of no order gets the 404. Nothing is written in any of the four cases.
\<close>

theorem initiate_confirmed_order_500:
  "initiate_order_confirmation_call example_runtime example_env example_order_id example_user
       ''en'' None
       (example_state\<lparr>orders := [example_order\<lparr>o_confirmation_status := ''confirmed'',
                                                 o_call_attempts := 3\<rparr>]\<rparr>) =
     (Inl (HTTPException 500 ''Failed to initiate call''),
      example_state\<lparr>orders := [example_order\<lparr>o_confirmation_status := ''confirmed'',
                                                o_call_attempts := 3\<rparr>]\<rparr>) \<and>
   initiate_order_confirmation_call example_runtime example_env example_order_id example_user
       ''en'' None (example_state\<lparr>orders := [example_order\<lparr>o_call_attempts := 3\<rparr>]\<rparr>) =
     (Inl (HTTPException 500 ''Failed to initiate call''),
      example_state\<lparr>orders := [example_order\<lparr>o_call_attempts := 3\<rparr>]\<rparr>) \<and>
   initiate_order_confirmation_call example_runtime example_env ''abc'' example_user
       ''en'' None (example_state\<lparr>orders := []\<rparr>) =
     (Inl (HTTPException 500 ''Failed to initiate call''), example_state\<lparr>orders := []\<rparr>) \<and>
   initiate_order_confirmation_call example_runtime example_env example_order_id example_user
       ''en'' None (example_state\<lparr>orders := []\<rparr>) =
     (Inl (HTTPException 404 ''Order not found''), example_state\<lparr>orders := []\<rparr>)"
  by (simp add: initiate_never_proceeds ObjectId_example ObjectId_abc wire_id_def
      example_order_def example_user_def)

text \<open>
  Claim C2 says that for an eligible order whose audio synthesis fails the call record
  is stored as failed with outcome \<open>audio_generation_failed\<close> and the audio error is
  passed on, the attempts of the order unchanged. At a pending order of the requester
  with attempts left and a text-to-speech request that fails, the code answers 500
  "Failed to initiate call" and stores no call record: it stops at
  \<open>OrderInDB(**order)\<close>, before the record is created and before the audio is asked
  for. The order is unchanged.
\<close>

theorem initiate_synthesis_failure_500:
  "find_one (\<lambda>r. o_id r = 1 \<and> o_user_id r = u_id example_user) (orders example_state) =
     Some example_order \<and>
   o_confirmation_status example_order = ''pending'' \<and>
   o_call_attempts example_order < o_max_call_attempts example_order \<and>
   create_conversation_audio (example_env\<lparr>tts_response := None\<rparr>) = None \<and>
   initiate_order_confirmation_call example_runtime (example_env\<lparr>tts_response := None\<rparr>)
       example_order_id example_user ''en'' None example_state =
     (Inl (HTTPException 500 ''Failed to initiate call''), example_state) \<and>
   call_logs example_state = []"
  by (simp add: initiate_never_proceeds ObjectId_example wire_id_def example_state_def
      example_order_def example_user_def create_conversation_audio_def text_to_speech_def)

text \<open>
  Claim C3 says that for an eligible order whose audio synthesis succeeds the attempts
  of the order go up by one, \<open>last_call_date\<close> is set, and the call record gets its
  status, \<open>started_at\<close>, the script as transcript and the dispatch result as metadata.
  At a pending order of the requester with attempts left and a text-to-speech request
  that succeeds, the code answers 500 "Failed to initiate call" and writes nothing. The
  update that the code would send had it come that far is built by
  \<open>CallUpdate(status=..., started_at=..., transcript=..., metadata=...)\<close>, and that
  model keeps the status and the transcript only.
\<close>

theorem initiate_eligible_order_500:
  "find_one (\<lambda>r. o_id r = 1 \<and> o_user_id r = u_id example_user) (orders example_state) =
     Some example_order \<and>
   o_confirmation_status example_order = ''pending'' \<and>
   o_call_attempts example_order < o_max_call_attempts example_order \<and>
   create_conversation_audio example_env = Some ''mp3'' \<and>
   initiate_order_confirmation_call example_runtime example_env example_order_id example_user
       ''en'' None example_state =
     (Inl (HTTPException 500 ''Failed to initiate call''), example_state) \<and>
   CallUpdate_init [Kw_status ''in_progress'', Kw_started_at 100, Kw_transcript ''Hello'',
                    Kw_metadata [(''success'', PBool True)]] =
     CallUpdate_empty\<lparr>cu_status := Some ''in_progress'', cu_transcript := Some ''Hello''\<rparr>"
  by (simp add: initiate_never_proceeds ObjectId_example wire_id_def example_state_def
      example_order_def example_user_def CallUpdate_init_def example_env_def
      create_conversation_audio_def text_to_speech_def)

text \<open>
  Claim C10 says that an order of the requester that is not confirmed and has attempts
  left passes the eligibility check and is called, a cancelled order included. At a
  cancelled order of the requester with attempts left and a working text-to-speech
  service the code answers 500 "Failed to initiate call"; no call record is stored and
  the telephony service is not invoked.
\<close>

theorem initiate_cancelled_order_500:
  "o_call_attempts example_order < o_max_call_attempts example_order \<and>
   o_user_id example_order = u_id example_user \<and>
   create_conversation_audio example_env = Some ''mp3'' \<and>
   initiate_order_confirmation_call example_runtime example_env example_order_id example_user
       ''en'' None
       (example_state\<lparr>orders := [example_order\<lparr>o_confirmation_status := ''cancelled''\<rparr>]\<rparr>) =
     (Inl (HTTPException 500 ''Failed to initiate call''),
      example_state\<lparr>orders := [example_order\<lparr>o_confirmation_status := ''cancelled''\<rparr>]\<rparr>)"
  by (simp add: initiate_never_proceeds ObjectId_example wire_id_def
      example_order_def example_user_def example_env_def
      create_conversation_audio_def text_to_speech_def)

section \<open>Reconciling a delivery event\<close>

text \<open>
  Claim C4, as amended. Let a delivery event match a stored call record, let its
  duration be absent or a value that \<open>int()\<close> converts to an integer \<open>d\<close> of at most
  eight bytes, and let the database accept its payload. Then \<open>process_call_webhook\<close>
  returns \<open>True\<close> and the record's status is the provider status mapped by the table
  (completed to completed, busy, no-answer and failed to failed, canceled to cancelled,
  any other value to failed); its outcome is \<open>completed\<close> exactly when the mapped
  status is \<open>completed\<close> and \<open>d > 10\<close>, \<open>no_answer\<close> when the mapped status is
  \<open>completed\<close> and \<open>d \<le> 10\<close>, and \<open>failed\<close> when the mapped status is \<open>failed\<close>;
  the linked order is set to \<open>confirmed\<close> with \<open>confirmed_at\<close> if and only if the
  outcome is \<open>completed\<close>, and the orders are unchanged otherwise.
\<close>

theorem process_call_webhook_matched:
  assumes "find_one (\<lambda>c. c_call_id c = call_id) (call_logs st) = Some call"
    and "py_int rt (dict_get webhook_data ''CallDuration'' (PInt 0)) = Some d"
    and "bson_int d" and "db_stores rt webhook_data"
    and "status = dict_get webhook_data ''CallStatus'' (PStr ''unknown'')"
  shows "\<exists>call' st'.
           process_call_webhook rt t call_id webhook_data st = (True, st') \<and>
           find_one (\<lambda>c. c_call_id c = call_id) (call_logs st') = Some call' \<and>
           c_status call' =
             (if status = PStr ''completed'' then ''completed''
              else if status = PStr ''busy'' then ''failed''
              else if status = PStr ''no-answer'' then ''failed''
              else if status = PStr ''failed'' then ''failed''
              else if status = PStr ''canceled'' then ''cancelled''
              else ''failed'') \<and>
           c_duration call' = Some d \<and>
           (c_outcome call' = Some ''completed'') = (c_status call' = ''completed'' \<and> d > 10) \<and>
           (c_status call' = ''completed'' \<and> d \<le> 10 \<longrightarrow> c_outcome call' = Some ''no_answer'') \<and>
           (c_status call' = ''failed'' \<longrightarrow> c_outcome call' = Some ''failed'') \<and>
           orders st' =
             (if c_outcome call' = Some ''completed''
              then update_one (\<lambda>r. o_id r = c_order_id call)
                     (\<lambda>r. r\<lparr>o_confirmation_status := ''confirmed'', o_confirmed_at := Some t\<rparr>)
                     (orders st)
              else orders st)"
proof -
  define ms where "ms = status_mapping_get status"
  define oc where "oc = webhook_outcome ms d"
  define f where "f = webhook_update_data ms d oc t webhook_data"
  define st' where "st' =
    (if oc = ''completed''
     then st\<lparr>call_logs := update_one (\<lambda>c. c_call_id c = call_id) f (call_logs st),
             orders := update_one (\<lambda>r. o_id r = c_order_id call)
               (\<lambda>r. r\<lparr>o_confirmation_status := ''confirmed'', o_confirmed_at := Some t\<rparr>)
               (orders st)\<rparr>
     else st\<lparr>call_logs := update_one (\<lambda>c. c_call_id c = call_id) f (call_logs st)\<rparr>)"
  have pr: "process_call_webhook rt t call_id webhook_data st = (True, st')"
    using assms by (simp add: process_call_webhook_def Let_def ms_def oc_def f_def st'_def)
  have logs: "call_logs st' = update_one (\<lambda>c. c_call_id c = call_id) f (call_logs st)"
    by (simp add: st'_def)
  have found: "find_one (\<lambda>c. c_call_id c = call_id) (call_logs st') = Some (f call)"
    unfolding logs using assms(1)
    by (rule find_one_update_one) (simp add: f_def webhook_update_data_def)
  have ms: "ms =
             (if status = PStr ''completed'' then ''completed''
              else if status = PStr ''busy'' then ''failed''
              else if status = PStr ''no-answer'' then ''failed''
              else if status = PStr ''failed'' then ''failed''
              else if status = PStr ''canceled'' then ''cancelled''
              else ''failed'')"
    unfolding ms_def by (cases status) (simp_all add: status_mapping_def)
  have cs: "c_status (f call) = ms" and du: "c_duration (f call) = Some d"
    and ou: "c_outcome (f call) = Some oc"
    by (simp_all add: f_def webhook_update_data_def)
  have oc: "(oc = ''completed'') = (ms = ''completed'' \<and> d > 10)"
    by (simp add: oc_def webhook_outcome_def)
  have on: "ms = ''completed'' \<and> d \<le> 10 \<longrightarrow> oc = ''no_answer''"
    by (simp add: oc_def webhook_outcome_def)
  have ofl: "ms = ''failed'' \<longrightarrow> oc = ''failed''"
    by (simp add: oc_def webhook_outcome_def)
  have ords: "orders st' =
             (if oc = ''completed''
              then update_one (\<lambda>r. o_id r = c_order_id call)
                     (\<lambda>r. r\<lparr>o_confirmation_status := ''confirmed'', o_confirmed_at := Some t\<rparr>)
                     (orders st)
              else orders st)"
    by (simp add: st'_def)
  have "process_call_webhook rt t call_id webhook_data st = (True, st') \<and>
        find_one (\<lambda>c. c_call_id c = call_id) (call_logs st') = Some (f call) \<and>
        c_status (f call) =
             (if status = PStr ''completed'' then ''completed''
              else if status = PStr ''busy'' then ''failed''
              else if status = PStr ''no-answer'' then ''failed''
              else if status = PStr ''failed'' then ''failed''
              else if status = PStr ''canceled'' then ''cancelled''
              else ''failed'') \<and>
        c_duration (f call) = Some d \<and>
        (c_outcome (f call) = Some ''completed'') = (c_status (f call) = ''completed'' \<and> d > 10) \<and>
        (c_status (f call) = ''completed'' \<and> d \<le> 10 \<longrightarrow> c_outcome (f call) = Some ''no_answer'') \<and>
        (c_status (f call) = ''failed'' \<longrightarrow> c_outcome (f call) = Some ''failed'') \<and>
        orders st' =
             (if c_outcome (f call) = Some ''completed''
              then update_one (\<lambda>r. o_id r = c_order_id call)
                     (\<lambda>r. r\<lparr>o_confirmation_status := ''confirmed'', o_confirmed_at := Some t\<rparr>)
                     (orders st)
              else orders st)"
    unfolding cs du ou option.inject
    using pr found ms [symmetric] oc on ofl ords by blast
  then show ?thesis by blast
qed

text \<open>
  The three events of the specification's examples: completed after 15 seconds,
  completed after 5 seconds, and busy with no duration.
\<close>

theorem process_call_webhook_matched_witness:
  "(\<exists>call' st'.
      process_call_webhook example_runtime 200 ''CA-1''
          [(''CallStatus'', PStr ''completed''), (''CallDuration'', PStr ''15'')]
          example_state_with_call = (True, st') \<and>
      find_one (\<lambda>c. c_call_id c = ''CA-1'') (call_logs st') = Some call' \<and>
      c_status call' = ''completed'' \<and> c_outcome call' = Some ''completed'' \<and>
      orders st' = [example_order\<lparr>o_confirmation_status := ''confirmed'',
                                   o_confirmed_at := Some 200\<rparr>]) \<and>
   (\<exists>call' st'.
      process_call_webhook example_runtime 200 ''CA-1''
          [(''CallStatus'', PStr ''completed''), (''CallDuration'', PStr ''5'')]
          example_state_with_call = (True, st') \<and>
      find_one (\<lambda>c. c_call_id c = ''CA-1'') (call_logs st') = Some call' \<and>
      c_status call' = ''completed'' \<and> c_outcome call' = Some ''no_answer'' \<and>
      orders st' = [example_order]) \<and>
   (\<exists>call' st'.
      process_call_webhook example_runtime 200 ''CA-1'' [(''CallStatus'', PStr ''busy'')]
          example_state_with_call = (True, st') \<and>
      find_one (\<lambda>c. c_call_id c = ''CA-1'') (call_logs st') = Some call' \<and>
      c_status call' = ''failed'' \<and> c_outcome call' = Some ''failed'' \<and>
      orders st' = [example_order])"
proof -
  have f: "find_one (\<lambda>c. c_call_id c = ''CA-1'') (call_logs example_state_with_call) =
             Some example_call"
    by (simp add: example_state_with_call_def example_call_def)
  have d15: "py_int example_runtime
               (dict_get [(''CallStatus'', PStr ''completed''), (''CallDuration'', PStr ''15'')]
                  ''CallDuration'' (PInt 0)) = Some 15"
    by (simp add: dict_get_def example_runtime_def decimal_str_15)
  have d5: "py_int example_runtime
              (dict_get [(''CallStatus'', PStr ''completed''), (''CallDuration'', PStr ''5'')]
                 ''CallDuration'' (PInt 0)) = Some 5"
    by (simp add: dict_get_def example_runtime_def decimal_str_5)
  have d0: "py_int example_runtime
              (dict_get [(''CallStatus'', PStr ''busy'')] ''CallDuration'' (PInt 0)) = Some 0"
    by (simp add: dict_get_def)
  have b: "bson_int 15" "bson_int 5" "bson_int 0"
    by (simp_all add: bson_int_def)
  have k1: "db_stores example_runtime
              [(''CallStatus'', PStr ''completed''), (''CallDuration'', PStr ''15'')]"
    and k2: "db_stores example_runtime
              [(''CallStatus'', PStr ''completed''), (''CallDuration'', PStr ''5'')]"
    and k3: "db_stores example_runtime [(''CallStatus'', PStr ''busy'')]"
    by (simp_all add: example_runtime_def)
  have s1: "PStr ''completed'' = dict_get [(''CallStatus'', PStr ''completed''),
              (''CallDuration'', PStr ''15'')] ''CallStatus'' (PStr ''unknown'')"
    by (simp add: dict_get_def)
  have s2: "PStr ''completed'' = dict_get [(''CallStatus'', PStr ''completed''),
              (''CallDuration'', PStr ''5'')] ''CallStatus'' (PStr ''unknown'')"
    by (simp add: dict_get_def)
  have s3: "PStr ''busy'' = dict_get [(''CallStatus'', PStr ''busy'')] ''CallStatus''
              (PStr ''unknown'')"
    by (simp add: dict_get_def)
  have o: "c_order_id example_call = 1" "orders example_state_with_call = [example_order]"
    "o_id example_order = 1"
    by (simp_all add: example_call_def example_state_with_call_def example_order_def)
  have r1: "\<exists>call' st'.
      process_call_webhook example_runtime 200 ''CA-1''
          [(''CallStatus'', PStr ''completed''), (''CallDuration'', PStr ''15'')]
          example_state_with_call = (True, st') \<and>
      find_one (\<lambda>c. c_call_id c = ''CA-1'') (call_logs st') = Some call' \<and>
      c_status call' = ''completed'' \<and> c_outcome call' = Some ''completed'' \<and>
      orders st' = [example_order\<lparr>o_confirmation_status := ''confirmed'',
                                   o_confirmed_at := Some 200\<rparr>]"
    using process_call_webhook_matched [OF f d15 b(1) k1 s1, of 200] by (auto simp add: o)
  have r2: "\<exists>call' st'.
      process_call_webhook example_runtime 200 ''CA-1''
          [(''CallStatus'', PStr ''completed''), (''CallDuration'', PStr ''5'')]
          example_state_with_call = (True, st') \<and>
      find_one (\<lambda>c. c_call_id c = ''CA-1'') (call_logs st') = Some call' \<and>
      c_status call' = ''completed'' \<and> c_outcome call' = Some ''no_answer'' \<and>
      orders st' = [example_order]"
    using process_call_webhook_matched [OF f d5 b(2) k2 s2, of 200] by (auto simp add: o)
  have r3: "\<exists>call' st'.
      process_call_webhook example_runtime 200 ''CA-1'' [(''CallStatus'', PStr ''busy'')]
          example_state_with_call = (True, st') \<and>
      find_one (\<lambda>c. c_call_id c = ''CA-1'') (call_logs st') = Some call' \<and>
      c_status call' = ''failed'' \<and> c_outcome call' = Some ''failed'' \<and>
      orders st' = [example_order]"
    using process_call_webhook_matched [OF f d0 b(3) k3 s3, of 200] by (auto simp add: o)
  from r1 r2 r3 show ?thesis by blast
qed

text \<open>
  A matched event is not always applied: with the empty string as duration
  (\<open>int('')\<close> raises) and with the duration \<open>9223372036854775808\<close> (the update
  cannot be encoded) the method returns \<open>False\<close> and writes nothing, so that no status
  is mapped and no outcome derived.
\<close>

theorem process_call_webhook_refuses:
  "process_call_webhook example_runtime 200 ''CA-1''
       [(''CallStatus'', PStr ''busy''), (''CallDuration'', PStr [])]
       example_state_with_call = (False, example_state_with_call) \<and>
   process_call_webhook example_runtime 200 ''CA-1''
       [(''CallStatus'', PStr ''completed''), (''CallDuration'', PStr ''9223372036854775808'')]
       example_state_with_call = (False, example_state_with_call) \<and>
   find_one (\<lambda>c. c_call_id c = ''CA-1'') (call_logs example_state_with_call) =
     Some example_call"
  by (simp add: process_call_webhook_def Let_def dict_get_def example_runtime_def
      decimal_str_empty decimal_str_big bson_int_def example_state_with_call_def
      example_call_def)

text \<open>
  Claim C5. Reconciliation is idempotent: applying the same event a second time, at the
  same clock reading, gives the same result and the same call records and orders as
  applying it once.
\<close>

theorem process_call_webhook_idempotent:
  "process_call_webhook rt t call_id webhook_data
     (snd (process_call_webhook rt t call_id webhook_data st)) =
   process_call_webhook rt t call_id webhook_data st"
proof (cases "find_one (\<lambda>c. c_call_id c = call_id) (call_logs st)")
  case None
  then show ?thesis by (simp add: process_call_webhook_def)
next
  case (Some call)
  note call = this
  show ?thesis
  proof (cases "py_int rt (dict_get webhook_data ''CallDuration'' (PInt 0))")
    case None
    with call show ?thesis by (simp add: process_call_webhook_def Let_def)
  next
    case (Some d)
    show ?thesis
    proof (cases "bson_int d \<and> db_stores rt webhook_data")
      case False
      with call Some show ?thesis by (auto simp add: process_call_webhook_def Let_def)
    next
      case True
      define ms where "ms = status_mapping_get (dict_get webhook_data ''CallStatus'' (PStr ''unknown''))"
      define oc where "oc = webhook_outcome ms d"
      define f where "f = webhook_update_data ms d oc t webhook_data"
      define g :: "OrderInDB \<Rightarrow> OrderInDB"
        where "g = (\<lambda>r. r\<lparr>o_confirmation_status := ''confirmed'', o_confirmed_at := Some t\<rparr>)"
      define logs' where "logs' = update_one (\<lambda>c. c_call_id c = call_id) f (call_logs st)"
      have step: "process_call_webhook rt t call_id webhook_data s =
                    (True,
                     if oc = ''completed''
                     then s\<lparr>call_logs := update_one (\<lambda>c. c_call_id c = call_id) f (call_logs s),
                            orders := update_one (\<lambda>r. o_id r = c_order_id k) g (orders s)\<rparr>
                     else s\<lparr>call_logs := update_one (\<lambda>c. c_call_id c = call_id) f (call_logs s)\<rparr>)"
        if "find_one (\<lambda>c. c_call_id c = call_id) (call_logs s) = Some k" for s k
        using that Some True
        by (simp add: process_call_webhook_def Let_def ms_def oc_def f_def g_def)
      have found: "find_one (\<lambda>c. c_call_id c = call_id) logs' = Some (f call)"
        unfolding logs'_def using call
        by (rule find_one_update_one) (simp add: f_def webhook_update_data_def)
      have oid: "c_order_id (f call) = c_order_id call"
        by (simp add: f_def webhook_update_data_def)
      have calls: "update_one (\<lambda>c. c_call_id c = call_id) f logs' = logs'"
        unfolding logs'_def
        by (rule update_one_idem) (simp_all add: f_def webhook_update_data_def)
      have ords: "update_one (\<lambda>r. o_id r = c_order_id call) g
                     (update_one (\<lambda>r. o_id r = c_order_id call) g (orders st)) =
                   update_one (\<lambda>r. o_id r = c_order_id call) g (orders st)"
        by (rule update_one_idem) (simp_all add: g_def)
      show ?thesis
      proof (cases "oc = ''completed''")
        case True
        have first: "process_call_webhook rt t call_id webhook_data st =
                       (True, st\<lparr>call_logs := logs',
                                orders := update_one (\<lambda>r. o_id r = c_order_id call) g (orders st)\<rparr>)"
          using step [OF call] True by (simp add: logs'_def)
        have "process_call_webhook rt t call_id webhook_data
                (st\<lparr>call_logs := logs',
                    orders := update_one (\<lambda>r. o_id r = c_order_id call) g (orders st)\<rparr>) =
              (True, st\<lparr>call_logs := logs',
                        orders := update_one (\<lambda>r. o_id r = c_order_id call) g (orders st)\<rparr>)"
          using step [where s = "st\<lparr>call_logs := logs',
                    orders := update_one (\<lambda>r. o_id r = c_order_id call) g (orders st)\<rparr>"
                and k = "f call"] found True
          by (simp add: oid calls ords)
        with first show ?thesis by simp
      next
        case False
        have first: "process_call_webhook rt t call_id webhook_data st = (True, st\<lparr>call_logs := logs'\<rparr>)"
          using step [OF call] False by (simp add: logs'_def)
        have "process_call_webhook rt t call_id webhook_data (st\<lparr>call_logs := logs'\<rparr>) =
              (True, st\<lparr>call_logs := logs'\<rparr>)"
          using step [where s = "st\<lparr>call_logs := logs'\<rparr>" and k = "f call"] found False
          by (simp add: calls)
        with first show ?thesis by simp
      qed
    qed
  qed
qed

text \<open>
  Claim C7, as amended. For a delivery event whose call identifier matches no stored
  call record, \<open>process_call_webhook\<close> returns \<open>False\<close> and changes nothing, and the
  webhook endpoint answers such an event with the HTTP error 400 "Failed to process
  webhook".
\<close>

theorem unknown_call_is_rejected:
  assumes "find_one (\<lambda>c. c_call_id c = call_id) (call_logs st) = None"
  shows "process_call_webhook rt t call_id webhook_data st = (False, st) \<and>
         (map_of form_data ''CallSid'' = Some call_id \<and> call_id \<noteq> [] \<longrightarrow>
            twilio_webhook rt t form_data st =
              (Inl (HTTPException 400 ''Failed to process webhook''), st))"
  using assms by (simp add: process_call_webhook_def twilio_webhook_def)

theorem unknown_call_is_rejected_witness:
  "find_one (\<lambda>c. c_call_id c = ''CA-unknown'') (call_logs example_state_with_call) = None \<and>
   process_call_webhook example_runtime 200 ''CA-unknown''
       [(''CallSid'', PStr ''CA-unknown''), (''CallStatus'', PStr ''completed'')]
       example_state_with_call = (False, example_state_with_call) \<and>
   twilio_webhook example_runtime 200
       [(''CallSid'', ''CA-unknown''), (''CallStatus'', ''completed'')]
       example_state_with_call =
     (Inl (HTTPException 400 ''Failed to process webhook''), example_state_with_call)"
proof -
  have f: "find_one (\<lambda>c. c_call_id c = ''CA-unknown'') (call_logs example_state_with_call) = None"
    by (simp add: example_state_with_call_def example_call_def)
  have m: "map_of [(''CallSid'', ''CA-unknown''), (''CallStatus'', ''completed'')] ''CallSid'' =
             Some ''CA-unknown'' \<and> ''CA-unknown'' \<noteq> []"
    by simp
  from unknown_call_is_rejected [OF f, of example_runtime 200
      "[(''CallSid'', PStr ''CA-unknown''), (''CallStatus'', PStr ''completed'')]"
      "[(''CallSid'', ''CA-unknown''), (''CallStatus'', ''completed'')]"] f m
  show ?thesis by blast
qed

text \<open>
  The endpoint does not answer an unmatched event with success.
\<close>

theorem twilio_webhook_unknown_call_400:
  "twilio_webhook example_runtime 200
       [(''CallSid'', ''CA-unknown''), (''CallStatus'', ''completed''), (''CallDuration'', ''15'')]
       example_state_with_call =
     (Inl (HTTPException 400 ''Failed to process webhook''), example_state_with_call)"
  by (simp add: twilio_webhook_def process_call_webhook_def example_state_with_call_def
      example_call_def)

text \<open>
  Claim C9, as amended. In both update paths (\<open>update_call\<close> and reconciliation)
  \<open>ended_at\<close> is set to the current time exactly when the status written is
  \<open>completed\<close>; an update that writes another status, \<open>failed\<close> and \<open>cancelled\<close>
  included, or no status, or that is refused and writes nothing, leaves \<open>ended_at\<close> as
  it was.
\<close>

theorem ended_at_set_on_completed:
  assumes "find_one (\<lambda>c. c_id c = i) (call_logs st) = Some c"
    and "find_one (\<lambda>c. c_call_id c = call_id) (call_logs st) = Some k"
  shows "(\<exists>c'. find_one (\<lambda>c. c_id c = i) (call_logs (snd (update_call t i u st))) = Some c' \<and>
               c_ended_at c' =
                 (if call_update_storable u \<and> cu_status u = Some ''completed'' then Some t
                  else c_ended_at c)) \<and>
         (\<exists>k'. find_one (\<lambda>c. c_call_id c = call_id)
                  (call_logs (snd (process_call_webhook rt t call_id webhook_data st))) = Some k' \<and>
               c_ended_at k' =
                 (if fst (process_call_webhook rt t call_id webhook_data st) \<and>
                     c_status k' = ''completed'' then Some t
                  else c_ended_at k))"
proof -
  define f where "f = call_update_data u t"
  have fnd: "find_one (\<lambda>c. c_id c = i) (update_one (\<lambda>c. c_id c = i) f (call_logs st)) = Some (f c)"
    using assms(1) by (rule find_one_update_one) (simp add: f_def call_update_data_def)
  have fe: "c_ended_at (f c) =
                   (if cu_status u = Some ''completed'' then Some t else c_ended_at c)"
    by (simp add: f_def call_update_data_def)
  have first:
    "\<exists>c'. find_one (\<lambda>c. c_id c = i) (call_logs (snd (update_call t i u st))) = Some c' \<and>
          c_ended_at c' =
            (if call_update_storable u \<and> cu_status u = Some ''completed'' then Some t
             else c_ended_at c)"
  proof (cases "call_update_storable u")
    case True
    with fnd fe show ?thesis by (simp add: snd_update_call f_def)
  next
    case False
    with assms(1) show ?thesis by (simp add: snd_update_call)
  qed
  have second:
    "\<exists>k'. find_one (\<lambda>c. c_call_id c = call_id)
             (call_logs (snd (process_call_webhook rt t call_id webhook_data st))) = Some k' \<and>
          c_ended_at k' =
            (if fst (process_call_webhook rt t call_id webhook_data st) \<and>
                c_status k' = ''completed'' then Some t
             else c_ended_at k)"
  proof (cases "fst (process_call_webhook rt t call_id webhook_data st)")
    case False
    then have "snd (process_call_webhook rt t call_id webhook_data st) = st"
      by (auto simp add: process_call_webhook_def Let_def split: option.splits if_splits)
    with False assms(2) show ?thesis by simp
  next
    case True
    then obtain d where d: "py_int rt (dict_get webhook_data ''CallDuration'' (PInt 0)) = Some d"
      and ok: "bson_int d \<and> db_stores rt webhook_data"
      using assms(2)
      by (auto simp add: process_call_webhook_def Let_def split: option.splits if_splits)
    define ms where "ms = status_mapping_get (dict_get webhook_data ''CallStatus'' (PStr ''unknown''))"
    define g where "g = webhook_update_data ms d (webhook_outcome ms d) t webhook_data"
    have logs: "call_logs (snd (process_call_webhook rt t call_id webhook_data st)) =
                  update_one (\<lambda>c. c_call_id c = call_id) g (call_logs st)"
      using assms(2) d ok by (simp add: process_call_webhook_def Let_def ms_def g_def)
    have "find_one (\<lambda>c. c_call_id c = call_id)
            (update_one (\<lambda>c. c_call_id c = call_id) g (call_logs st)) = Some (g k)"
      using assms(2) by (rule find_one_update_one) (simp add: g_def webhook_update_data_def)
    moreover have "c_ended_at (g k) =
                     (if c_status (g k) = ''completed'' then Some t else c_ended_at k)"
      by (simp add: g_def webhook_update_data_def)
    ultimately show ?thesis
      unfolding logs using True by simp
  qed
  from first second show ?thesis by blast
qed

theorem ended_at_set_on_completed_witness:
  "(\<exists>c'. find_one (\<lambda>c. c_id c = 40)
            (call_logs (snd (update_call 200 40 (CallUpdate_init [Kw_status ''completed''])
                               example_state_with_call))) = Some c' \<and>
         c_ended_at c' = Some 200) \<and>
   (\<exists>k'. find_one (\<lambda>c. c_call_id c = ''CA-1'')
            (call_logs (snd (process_call_webhook example_runtime 200 ''CA-1''
                               [(''CallStatus'', PStr ''busy'')] example_state_with_call))) =
            Some k' \<and>
         c_ended_at k' =
           (if fst (process_call_webhook example_runtime 200 ''CA-1''
                      [(''CallStatus'', PStr ''busy'')] example_state_with_call) \<and>
               c_status k' = ''completed'' then Some 200
            else None))"
proof -
  have a: "find_one (\<lambda>c. c_id c = 40) (call_logs example_state_with_call) = Some example_call"
    by (simp add: example_state_with_call_def example_call_def)
  have b: "find_one (\<lambda>c. c_call_id c = ''CA-1'') (call_logs example_state_with_call) =
             Some example_call"
    by (simp add: example_state_with_call_def example_call_def)
  have u: "cu_status (CallUpdate_init [Kw_status ''completed'']) = Some ''completed''"
    "call_update_storable (CallUpdate_init [Kw_status ''completed''])"
    by (simp_all add: CallUpdate_init_def CallUpdate_empty_def call_update_storable_def)
  have e: "c_ended_at example_call = None"
    by (simp add: example_call_def)
  from ended_at_set_on_completed [OF a b, of 200 "CallUpdate_init [Kw_status ''completed'']"
      example_runtime "[(''CallStatus'', PStr ''busy'')]"]
  show ?thesis
    unfolding e by (simp add: u)
qed

text \<open>
  A record that reaches the terminal status \<open>failed\<close> or \<open>cancelled\<close> keeps
  \<open>ended_at\<close> unset.
\<close>

theorem failed_call_has_no_ended_at:
  "map c_status
     (call_logs (snd (update_call 200 40
        (CallUpdate_init [Kw_status ''failed'', Kw_outcome ''audio_generation_failed''])
        example_state_with_call))) = [''failed''] \<and>
   map c_ended_at
     (call_logs (snd (update_call 200 40
        (CallUpdate_init [Kw_status ''failed'', Kw_outcome ''audio_generation_failed''])
        example_state_with_call))) = [None] \<and>
   map c_status
     (call_logs (snd (process_call_webhook example_runtime 200 ''CA-1''
        [(''CallStatus'', PStr ''canceled'')] example_state_with_call))) = [''cancelled''] \<and>
   map c_ended_at
     (call_logs (snd (process_call_webhook example_runtime 200 ''CA-1''
        [(''CallStatus'', PStr ''canceled'')] example_state_with_call))) = [None]"
  by (simp add: snd_update_call call_update_data_def CallUpdate_init_def CallUpdate_empty_def
      call_update_storable_def process_call_webhook_def Let_def dict_get_def status_mapping_def
      webhook_outcome_def webhook_update_data_def example_state_with_call_def example_call_def
      set_opt_def example_runtime_def bson_int_def)

section \<open>Which operations confirm an order\<close>












section \<open>Call statistics\<close>

text \<open>
  The sum over the durations with null counted as 0 is the sum over the durations that
  are not null.
\<close>

lemma sum_durations:
  "sum_list (map (\<lambda>c. case c_duration c of None \<Rightarrow> 0 | Some d \<Rightarrow> d) cs) =
     sum_list (List.map_filter c_duration cs)"
  by (induction cs) (simp_all add: List.map_filter_simps split: option.splits)

lemma sum_abs_durations:
  "sum_list (map abs (map (\<lambda>c. case c_duration c of None \<Rightarrow> 0 | Some d \<Rightarrow> d) cs)) =
     sum_list (map abs (List.map_filter c_duration cs))"
  by (induction cs) (simp_all add: List.map_filter_simps split: option.splits)

text \<open>
  Claim C8, as amended. Let the durations of the call records visible to the requester
  add up, in absolute value, to a number of at most eight bytes. The statistics
  operation writes nothing. With no visible record the success rate and the average
  duration are 0.0. Otherwise the success rate is
  \<open>round(completed / total * 100, 2)\<close>, a percentage, and the average duration is
  \<open>round(sum / total, 2)\<close>, where \<open>sum\<close> adds the durations that are not null and
  \<open>total\<close> counts all visible records, those with a null duration included; the
  quotients, the product and the rounding are the ones of double precision.
\<close>

theorem get_call_stats_rates:
  assumes "visible = filter (\<lambda>c. u_role user = ''admin'' \<or> c_user_id c = u_id user) (call_logs st)"
    and "bson_int (sum_list (map abs (List.map_filter c_duration visible)))"
  shows "snd (get_call_stats fl big_stats user st) = st \<and>
         (visible = [] \<longrightarrow>
            success_rate (fst (get_call_stats fl big_stats user st)) = float_zero fl \<and>
            average_duration (fst (get_call_stats fl big_stats user st)) = float_zero fl) \<and>
         (visible \<noteq> [] \<longrightarrow>
            success_rate (fst (get_call_stats fl big_stats user st)) =
              round_2 fl (times_100 fl
                (true_div fl (int (length (filter (\<lambda>c. c_status c = ''completed'') visible)))
                   (int (length visible)))) \<and>
            average_duration (fst (get_call_stats fl big_stats user st)) =
              round_2 fl (true_div fl (sum_list (List.map_filter c_duration visible))
                            (int (length visible))))"
proof -
  have b: "bson_int (sum_list (map abs
             (map (\<lambda>c. case c_duration c of None \<Rightarrow> 0 | Some d \<Rightarrow> d) visible)))"
    using assms(2) by (simp only: sum_abs_durations)
  have e: "visible = [] \<Longrightarrow> get_call_stats fl big_stats user st = (empty_stats fl, st)"
    unfolding assms(1) by (simp add: get_call_stats_def Let_def)
  have n: "visible \<noteq> [] \<Longrightarrow>
     get_call_stats fl big_stats user st =
       (\<lparr>total_calls = int (length visible),
         successful_calls = int (length (filter (\<lambda>c. c_status c = ''completed'') visible)),
         failed_calls = int (length (filter (\<lambda>c. c_status c = ''failed'') visible)),
         average_duration =
           round_2 fl (true_div fl (sum_list (List.map_filter c_duration visible))
                         (int (length visible))),
         success_rate =
           round_2 fl (times_100 fl
             (true_div fl (int (length (filter (\<lambda>c. c_status c = ''completed'') visible)))
                (int (length visible)))),
         total_duration = sum_list (List.map_filter c_duration visible),
         calls_by_outcome = count_values (map c_outcome visible),
         calls_by_language = count_values (map (\<lambda>c. Some (c_language c)) visible)\<rparr>, st)"
    using b unfolding assms(1)
    by (simp add: get_call_stats_def Let_def sum_durations del: map_map)
  show ?thesis
  proof (cases "visible = []")
    case True
    with e show ?thesis by (simp add: empty_stats_def)
  next
    case False
    with n show ?thesis by simp
  qed
qed

theorem get_call_stats_rates_witness:
  "snd (get_call_stats exact_floats example_big_stats example_user
          example_stats_state) = example_stats_state \<and>
   success_rate (fst (get_call_stats exact_floats example_big_stats
                        example_user example_stats_state)) = 50 \<and>
   average_duration (fst (get_call_stats exact_floats example_big_stats
                            example_user example_stats_state)) = 5 \<and>
   success_rate (fst (get_call_stats exact_floats example_big_stats
                        example_user example_state)) = 0 \<and>
   average_duration (fst (get_call_stats exact_floats example_big_stats
                            example_user example_state)) = 0"
proof -
  have v: "call_logs example_stats_state =
             filter (\<lambda>c. u_role example_user = ''admin'' \<or> c_user_id c = u_id example_user)
               (call_logs example_stats_state)"
    by (simp add: example_stats_state_def example_call_def example_user_def)
  have b: "bson_int (sum_list (map abs (List.map_filter c_duration
             (call_logs example_stats_state))))"
    by (simp add: example_stats_state_def example_call_def List.map_filter_simps bson_int_def)
  have ne: "call_logs example_stats_state \<noteq> []"
    by (simp add: example_stats_state_def)
  have l: "int (length (filter (\<lambda>c. c_status c = ''completed'')
             (call_logs example_stats_state))) = 1"
    "int (length (call_logs example_stats_state)) = 2"
    "sum_list (List.map_filter c_duration (call_logs example_stats_state)) = 10"
    by (simp_all add: example_stats_state_def example_call_def List.map_filter_simps)
  have x: "round_2 exact_floats (times_100 exact_floats (true_div exact_floats 1 2)) = 50"
    "round_2 exact_floats (true_div exact_floats 10 2) = 5"
    "float_zero exact_floats = 0"
    by (simp_all add: exact_floats_def round_half_even_def Let_def)
  have v0: "[] = filter (\<lambda>c. u_role example_user = ''admin'' \<or> c_user_id c = u_id example_user)
               (call_logs example_state)"
    by (simp add: example_state_def)
  have b0: "bson_int (sum_list (map abs (List.map_filter c_duration [])))"
    by (simp add: List.map_filter_simps bson_int_def)
  from get_call_stats_rates [OF v b, of exact_floats example_big_stats] ne
  have p1: "snd (get_call_stats exact_floats example_big_stats example_user
          example_stats_state) = example_stats_state \<and>
   success_rate (fst (get_call_stats exact_floats example_big_stats
                        example_user example_stats_state)) = 50 \<and>
   average_duration (fst (get_call_stats exact_floats example_big_stats
                            example_user example_stats_state)) = 5"
    unfolding l x by blast
  from get_call_stats_rates [OF v0 b0, of exact_floats example_big_stats]
  have p2: "success_rate (fst (get_call_stats exact_floats example_big_stats
                        example_user example_state)) = 0 \<and>
   average_duration (fst (get_call_stats exact_floats example_big_stats
                            example_user example_state)) = 0"
    unfolding x by blast
  from p1 p2 show ?thesis by blast
qed

text \<open>
  One completed call of 10 seconds and one failed call with no duration: the operation
  returns the average duration 5 and the success rate 50, where the mean over the calls
  with a duration is 10 and completed over total is 1/2.
\<close>

theorem average_counts_calls_without_duration:
  "map c_status (call_logs example_stats_state) = [''completed'', ''failed''] \<and>
   map c_duration (call_logs example_stats_state) = [Some 10, None] \<and>
   average_duration (fst (get_call_stats exact_floats example_big_stats
                            example_user example_stats_state)) = 5 \<and>
   spec_average_duration (call_logs example_stats_state) = 10 \<and>
   success_rate (fst (get_call_stats exact_floats example_big_stats
                        example_user example_stats_state)) = 50 \<and>
   spec_success_rate (call_logs example_stats_state) = 1 / 2"
  by (simp add: get_call_stats_def Let_def example_stats_state_def example_call_def
      example_user_def bson_int_def exact_floats_def round_half_even_def
      spec_average_duration_def spec_success_rate_def List.map_filter_simps)

end
